theory Spec2Isabelle
  imports Complex_Main "HOL-Library.Multiset" "HOL-Library.Sublist" "HOL-Library.Log_Nat"
begin

section \<open>Errors and shared data\<close>

text \<open>
  A thrown exception or an error response is a value: \<open>HttpError code message\<close> is what
  \<^verbatim>\<open>createError(message, code)\<close> and \<^verbatim>\<open>res.status(code).json({error: message})\<close>
  produce, \<open>TypeError\<close> is what \<^verbatim>\<open>Array.prototype.reduce\<close> throws on an empty array
  without an initial value.
\<close>

datatype error = HttpError nat string | TypeError

text \<open>
  The status strings of both servers. The Prisma server stores QUIET, MODERATE, BUSY and
  VERY_BUSY on a snapshot; the static server of \<^verbatim>\<open>backend.js\<close> also answers UNKNOWN.
\<close>

datatype BusyStatus = QUIET | MODERATE | BUSY | VERY_BUSY | UNKNOWN

subsection \<open>JavaScript numbers\<close>

text \<open>
  A JavaScript number is a double. A finite double is modelled by the rational it
  denotes, and an arithmetic operation by the exact operation followed by rounding to
  the nearest double, ties to the even significand. \<open>exponent x\<close> is the integer \<open>e\<close> with
  \<open>2 ^ e \<le> \<bar>x\<bar> < 2 ^ (e + 1)\<close>; a double has 53 significant bits, so its last bit is worth
  \<open>2 ^ (e - 52)\<close>. The exponent is not bounded: overflow to Infinity (from \<open>2 ^ 1024\<close> on),
  gradual underflow (below \<open>2 ^ -1022\<close>), NaN and the sign of zero are outside the model.
\<close>

definition exponent :: "rat \<Rightarrow> int" where
  "exponent x =
     (let (p, q) = quotient_of \<bar>x\<bar>;
          k = bitlen p - bitlen q
      in if \<bar>x\<bar> < 2 powi k then k - 1 else k)"

definition roundHalfEven :: "rat \<Rightarrow> int" where
  "roundHalfEven x =
     (let f = \<lfloor>x\<rfloor>; r = x - of_int f
      in if r < 1 / 2 then f
         else if r > 1 / 2 then f + 1
         else if even f then f else f + 1)"

definition toDouble :: "rat \<Rightarrow> rat" where
  "toDouble x =
     (if x = 0 then 0
      else (let ulp = 2 powi (exponent x - 52)
            in of_int (roundHalfEven (x / ulp)) * ulp))"

text \<open>The operators \<^verbatim>\<open>+\<close>, \<^verbatim>\<open>-\<close>, \<^verbatim>\<open>*\<close> and \<^verbatim>\<open>/\<close> on numbers.\<close>

definition fadd :: "rat \<Rightarrow> rat \<Rightarrow> rat" where
  "fadd a b = toDouble (a + b)"

definition fsub :: "rat \<Rightarrow> rat \<Rightarrow> rat" where
  "fsub a b = toDouble (a - b)"

definition fmul :: "rat \<Rightarrow> rat \<Rightarrow> rat" where
  "fmul a b = toDouble (a * b)"

definition fdiv :: "rat \<Rightarrow> rat \<Rightarrow> rat" where
  "fdiv a b = toDouble (a / b)"

subsection \<open>Dates and snapshots\<close>

text \<open>
  A JavaScript \<^verbatim>\<open>Date\<close>, seen through the three accessors the routes use:
  milliseconds since the epoch, the local hour and the local day of the week.
\<close>

record Date =
  getTime :: int
  getHours :: nat
  getDay :: nat

text \<open>
  A row of the \<^verbatim>\<open>busySnapshot\<close> table. The Prisma schema is not part of the sources.
  The count is an integer; the percentage is any number, a double.
\<close>

record BusySnapshot =
  venueId :: string
  timestamp :: Date
  occupancyCount :: int
  occupancyPercentage :: rat
  status :: BusyStatus
  source :: string

section \<open>The aggregator of \<^verbatim>\<open>GET /venues/:id/busy/aggregates\<close>\<close>

text \<open>
  The entries of the two maps. A count grows by one for each snapshot and stays exact in a
  double far beyond any window, so it is a natural number here.
\<close>

record HourBucket =
  total_h :: rat
  count_h :: nat
  peak_h :: rat

record DayBucket =
  total_d :: rat
  count_d :: nat

record HourlyAggregate =
  hour :: nat
  averageOccupancy :: rat
  peakOccupancy :: rat

record DailyAggregate =
  dayOfWeek :: nat
  averageOccupancy_d :: rat
  peakHour :: nat

text \<open>The body of the first \<^verbatim>\<open>snapshots.forEach\<close>: one snapshot added to its hour bucket.\<close>

definition hourlyStep :: "BusySnapshot \<Rightarrow> (nat \<rightharpoonup> HourBucket) \<Rightarrow> (nat \<rightharpoonup> HourBucket)" where
  "hourlyStep snapshot hourlyData =
     (let h = getHours (timestamp snapshot);
          current = (case hourlyData h of
                       Some b \<Rightarrow> b
                     | None \<Rightarrow> \<lparr>total_h = 0, count_h = 0, peak_h = 0\<rparr>);
          current = current\<lparr>total_h := fadd (total_h current) (occupancyPercentage snapshot)\<rparr>;
          current = current\<lparr>count_h := count_h current + 1\<rparr>;
          current = current\<lparr>peak_h := max (peak_h current) (occupancyPercentage snapshot)\<rparr>
      in hourlyData(h \<mapsto> current))"

definition hourlyData :: "BusySnapshot list \<Rightarrow> (nat \<rightharpoonup> HourBucket)" where
  "hourlyData snapshots = fold hourlyStep snapshots Map.empty"

text \<open>\<^verbatim>\<open>Array.from({ length: 24 }, (_, hour) => ...)\<close>.\<close>

definition hourlyAverages :: "(nat \<rightharpoonup> HourBucket) \<Rightarrow> HourlyAggregate list" where
  "hourlyAverages hdata =
     map (\<lambda>h. case hdata h of
                 Some d \<Rightarrow> \<lparr>hour = h,
                            averageOccupancy = fdiv (total_h d) (of_nat (count_h d)),
                            peakOccupancy = peak_h d\<rparr>
               | None \<Rightarrow> \<lparr>hour = h, averageOccupancy = 0, peakOccupancy = 0\<rparr>)
         [0..<24]"

text \<open>The body of the second \<^verbatim>\<open>snapshots.forEach\<close>.\<close>

definition dailyStep :: "BusySnapshot \<Rightarrow> (nat \<rightharpoonup> DayBucket) \<Rightarrow> (nat \<rightharpoonup> DayBucket)" where
  "dailyStep snapshot dailyData =
     (let d = getDay (timestamp snapshot);
          current = (case dailyData d of
                       Some b \<Rightarrow> b
                     | None \<Rightarrow> \<lparr>total_d = 0, count_d = 0\<rparr>);
          current = current\<lparr>total_d := fadd (total_d current) (occupancyPercentage snapshot)\<rparr>;
          current = current\<lparr>count_d := count_d current + 1\<rparr>
      in dailyData(d \<mapsto> current))"

definition dailyData :: "BusySnapshot list \<Rightarrow> (nat \<rightharpoonup> DayBucket)" where
  "dailyData snapshots = fold dailyStep snapshots Map.empty"

text \<open>
  \<^verbatim>\<open>arr.reduce(f)\<close> without an initial value: the first element starts the fold, and an
  empty array throws.
\<close>

fun reduce :: "('a \<Rightarrow> 'a \<Rightarrow> 'a) \<Rightarrow> 'a list \<Rightarrow> error + 'a" where
  "reduce f [] = Inl TypeError"
| "reduce f (x # xs) = Inr (foldl f x xs)"

text \<open>A callback that may throw, mapped over an array: the first throw ends the map.\<close>

fun mapE :: "('a \<Rightarrow> error + 'b) \<Rightarrow> 'a list \<Rightarrow> error + 'b list" where
  "mapE f [] = Inr []"
| "mapE f (x # xs) =
     (case f x of
        Inl e \<Rightarrow> Inl e
      | Inr y \<Rightarrow> (case mapE f xs of Inl e \<Rightarrow> Inl e | Inr ys \<Rightarrow> Inr (y # ys)))"

definition pickPeak :: "HourlyAggregate \<Rightarrow> HourlyAggregate \<Rightarrow> HourlyAggregate" where
  "pickPeak mx cur = (if averageOccupancy cur > averageOccupancy mx then cur else mx)"

text \<open>
  \<^verbatim>\<open>Array.from({ length: 7 }, (_, day) => ...)\<close>: each of the seven callbacks reduces the
  whole list of hourly averages again.
\<close>

definition dailyAverages ::
  "HourlyAggregate list \<Rightarrow> (nat \<rightharpoonup> DayBucket) \<Rightarrow> error + DailyAggregate list" where
  "dailyAverages ha ddata =
     mapE (\<lambda>day. case reduce pickPeak ha of
                    Inl e \<Rightarrow> Inl e
                  | Inr p \<Rightarrow>
                      Inr \<lparr>dayOfWeek = day,
                           averageOccupancy_d =
                             (case ddata day of
                                Some d \<Rightarrow> fdiv (total_d d) (of_nat (count_d d))
                              | None \<Rightarrow> 0),
                           peakHour = hour p\<rparr>)
          [0..<7]"

text \<open>Lines 189 to 236 of the route: from the window of snapshots to both lists.\<close>

definition aggregate ::
  "BusySnapshot list \<Rightarrow> error + (HourlyAggregate list \<times> DailyAggregate list)" where
  "aggregate snapshots =
     (let ha = hourlyAverages (hourlyData snapshots)
      in case dailyAverages ha (dailyData snapshots) of
           Inl e \<Rightarrow> Inl e
         | Inr da \<Rightarrow> Inr (ha, da))"


subsection \<open>The two steps with exact sums\<close>



section \<open>The Prisma routes around the aggregator\<close>

text \<open>
  The tables the routes read. A venue row carries more columns than these two; none of
  the others is read by the code modelled here.
\<close>

record Venue =
  id_v :: string
  category_v :: string

record Db =
  venue_table :: "Venue list"
  busySnapshot_table :: "BusySnapshot list"

definition findUnique :: "Venue list \<Rightarrow> string \<Rightarrow> Venue option" where
  "findUnique vs i = find (\<lambda>v. id_v v = i) vs"

record AggregatesResponse =
  venueId_a :: string
  hourlyAverages_a :: "HourlyAggregate list"
  dailyAverages_a :: "DailyAggregate list"
  weeklyAverages_a :: "rat list"

text \<open>
  The whole handler of \<^verbatim>\<open>GET /venues/:id/busy/aggregates\<close>: \<open>now\<close> is \<^verbatim>\<open>Date.now()\<close>, and
  the order of the table stands for the order in which the database returns the rows.
\<close>

definition busyAggregates :: "Db \<Rightarrow> int \<Rightarrow> string \<Rightarrow> error + AggregatesResponse" where
  "busyAggregates db now i =
     (case findUnique (venue_table db) i of
        None \<Rightarrow> Inl (HttpError 404 ''Venue not found'')
      | Some venue \<Rightarrow>
          (let thirtyDaysAgo = now - 30 * 24 * 60 * 60 * 1000;
               snapshots = filter (\<lambda>s. venueId s = i \<and> getTime (timestamp s) \<ge> thirtyDaysAgo)
                             (busySnapshot_table db)
           in case aggregate snapshots of
                Inl e \<Rightarrow> Inl e
              | Inr (ha, da) \<Rightarrow>
                  Inr \<lparr>venueId_a = i, hourlyAverages_a = ha, dailyAverages_a = da,
                       weeklyAverages_a = []\<rparr>))"

subsection \<open>The venue listing\<close>

record VenueWithStatus =
  venue_w :: Venue
  currentStatus :: BusyStatus
  currentOccupancy :: int
  occupancyPercentage_w :: rat

text \<open>\<^verbatim>\<open>a || b\<close> on numbers: zero is falsy.\<close>

definition orElse :: "'a::zero \<Rightarrow> 'a \<Rightarrow> 'a" where
  "orElse a b = (if a = 0 then b else a)"

text \<open>
  The \<^verbatim>\<open>include: { busySnapshots: { where, orderBy: { timestamp: 'desc' }, take: 1 } }\<close> of the
  listing query, for one venue.
\<close>

definition recentSnapshots :: "Db \<Rightarrow> int \<Rightarrow> Venue \<Rightarrow> BusySnapshot list" where
  "recentSnapshots db now venue =
     filter (\<lambda>s. venueId s = id_v venue \<and> getTime (timestamp s) \<ge> now - 24 * 60 * 60 * 1000)
       (busySnapshot_table db)"

definition includeBusySnapshots :: "Db \<Rightarrow> int \<Rightarrow> Venue \<Rightarrow> BusySnapshot list" where
  "includeBusySnapshots db now venue =
     take 1 (rev (sort_key (\<lambda>s. getTime (timestamp s)) (recentSnapshots db now venue)))"

text \<open>The callback of \<^verbatim>\<open>venues.map\<close>; a status string is never empty, so it is truthy.\<close>

definition withStatus :: "Venue \<Rightarrow> BusySnapshot list \<Rightarrow> VenueWithStatus" where
  "withStatus venue busySnapshots =
     (let latestSnapshot = (case busySnapshots of [] \<Rightarrow> None | s # _ \<Rightarrow> Some s)
      in \<lparr>venue_w = venue,
          currentStatus = (case latestSnapshot of None \<Rightarrow> MODERATE | Some s \<Rightarrow> status s),
          currentOccupancy =
            (case latestSnapshot of None \<Rightarrow> 0 | Some s \<Rightarrow> orElse (occupancyCount s) 0),
          occupancyPercentage_w =
            (case latestSnapshot of None \<Rightarrow> 0 | Some s \<Rightarrow> orElse (occupancyPercentage s) 0)\<rparr>)"

text \<open>
  \<open>venues\<close> are the rows the query selected (its filter, order and page are applied
  before); each comes with its included snapshots.
\<close>

definition venuesWithStatus :: "Db \<Rightarrow> int \<Rightarrow> Venue list \<Rightarrow> VenueWithStatus list" where
  "venuesWithStatus db now venues =
     map (\<lambda>venue. withStatus venue (includeBusySnapshots db now venue)) venues"

section \<open>Status classification\<close>

text \<open>The seed script's classification of a snapshot it creates.\<close>

definition seedStatus :: "int \<Rightarrow> BusyStatus" where
  "seedStatus pct =
     (if pct \<ge> 80 then VERY_BUSY
      else if pct \<ge> 60 then BUSY
      else if pct \<ge> 30 then MODERATE
      else QUIET)"

text \<open>\<^verbatim>\<open>statusFromOccupancy\<close> of the static server.\<close>

definition statusFromOccupancy :: "int \<Rightarrow> BusyStatus" where
  "statusFromOccupancy pct =
     (if pct \<ge> 75 then VERY_BUSY
      else if pct \<ge> 40 then BUSY
      else if pct > 0 then QUIET
      else UNKNOWN)"

section \<open>The estimated popular times of \<^verbatim>\<open>SerpAPIService\<close>\<close>

text \<open>
  Strings are byte strings here, and \<^verbatim>\<open>toLowerCase\<close> maps the letters A to Z; the
  category strings of the venue data are ASCII.
\<close>

definition toLowerCase :: "string \<Rightarrow> string" where
  "toLowerCase s =
     map (\<lambda>c. if 65 \<le> (of_char c :: nat) \<and> (of_char c :: nat) \<le> 90
               then char_of ((of_char c :: nat) + 32) else c) s"

text \<open>\<^verbatim>\<open>s.includes(sub)\<close>: \<open>sub\<close> occurs in \<open>s\<close> as a contiguous run.\<close>

definition includes_js :: "string \<Rightarrow> string \<Rightarrow> bool" where
  "includes_js s sub = sublist sub s"

definition calculateBarPopularity :: "nat \<Rightarrow> bool \<Rightarrow> bool \<Rightarrow> int" where
  "calculateBarPopularity h isWeekend isFriday =
     (if h \<in> {0, 1, 2, 3, 4, 5} then (if isWeekend \<or> isFriday then 30 else 10)
      else if h \<in> {6, 7, 8, 9, 10, 11} then 5
      else if h \<in> {12, 13, 14, 15, 16} then (if isWeekend then 35 else 20)
      else if h \<in> {17, 18, 19} then (if isWeekend then 65 else 50)
      else if h \<in> {20, 21, 22} then (if isWeekend \<or> isFriday then 90 else 75)
      else if h = 23 then (if isWeekend \<or> isFriday then 95 else 70)
      else 15)"

definition calculateRestaurantPopularity :: "nat \<Rightarrow> bool \<Rightarrow> int" where
  "calculateRestaurantPopularity h isWeekend =
     (if h \<in> {0, 1, 2, 3, 4, 5, 6} then 5
      else if h \<in> {7, 8, 9} then (if isWeekend then 45 else 35)
      else if h \<in> {10, 11} then 20
      else if h \<in> {12, 13, 14} then 85
      else if h \<in> {15, 16, 17} then 30
      else if h \<in> {18, 19, 20} then (if isWeekend then 95 else 80)
      else if h \<in> {21, 22} then (if isWeekend then 65 else 45)
      else 10)"

definition calculateCafePopularity :: "nat \<Rightarrow> bool \<Rightarrow> int" where
  "calculateCafePopularity h isWeekend =
     (if h \<in> {0, 1, 2, 3, 4, 5, 6} then 5
      else if h \<in> {7, 8, 9} then (if isWeekend then 60 else 80)
      else if h \<in> {10, 11} then 50
      else if h \<in> {12, 13, 14} then 65
      else if h \<in> {15, 16, 17} then 45
      else if h \<in> {18, 19, 20} then 30
      else 10)"

definition calculateGenericPopularity :: "nat \<Rightarrow> bool \<Rightarrow> int" where
  "calculateGenericPopularity h isWeekend =
     (if h \<ge> 0 \<and> h \<le> 7 then 15
      else if h \<ge> 8 \<and> h \<le> 11 then 45
      else if h \<ge> 12 \<and> h \<le> 17 then 70
      else if h \<ge> 18 \<and> h \<le> 22 then (if isWeekend then 80 else 60)
      else 25)"

text \<open>
  The array starts as 24 zeros and the loop writes every index once, so the result is
  the list of the 24 clamped values.
\<close>

definition generateDayPattern :: "string \<Rightarrow> nat \<Rightarrow> int list" where
  "generateDayPattern category dayOfWeek' =
     (let isWeekend = (dayOfWeek' = 6 \<or> dayOfWeek' = 7);
          isFriday = (dayOfWeek' = 6);
          categoryLower = toLowerCase category
      in map (\<lambda>h.
               let popularity =
                     (if includes_js categoryLower ''bar'' \<or> includes_js categoryLower ''nightclub''
                      then calculateBarPopularity h isWeekend isFriday
                      else if includes_js categoryLower ''restaurant''
                      then calculateRestaurantPopularity h isWeekend
                      else if includes_js categoryLower ''cafe''
                      then calculateCafePopularity h isWeekend
                      else calculateGenericPopularity h isWeekend)
               in max 0 (min 100 popularity))
             [0..<24])"

subsection \<open>The classification as the specification words it\<close>

text \<open>
  Four classes; a class is chosen by the first rule, in the order bar or nightclub,
  restaurant, cafe, one of whose keywords occurs in the category without regard to case;
  no rule gives the generic class.
\<close>

datatype CategoryClass = BarNightclub | Restaurant | Cafe | Generic

definition spec_rules :: "(string list \<times> CategoryClass) list" where
  "spec_rules =
     [([''bar'', ''nightclub''], BarNightclub), ([''restaurant''], Restaurant), ([''cafe''], Cafe)]"

definition spec_matches :: "string \<Rightarrow> string \<Rightarrow> bool" where
  "spec_matches keyword category = sublist (toLowerCase keyword) (toLowerCase category)"

definition spec_classify :: "string \<Rightarrow> CategoryClass" where
  "spec_classify category =
     (case find (\<lambda>(keywords, cls). list_ex (\<lambda>k. spec_matches k category) keywords) spec_rules of
        None \<Rightarrow> Generic
      | Some (keywords, cls) \<Rightarrow> cls)"

definition spec_curve :: "CategoryClass \<Rightarrow> nat \<Rightarrow> nat \<Rightarrow> int" where
  "spec_curve cls dayOfWeek' h =
     (case cls of
        BarNightclub \<Rightarrow>
          calculateBarPopularity h (dayOfWeek' = 6 \<or> dayOfWeek' = 7) (dayOfWeek' = 6)
      | Restaurant \<Rightarrow> calculateRestaurantPopularity h (dayOfWeek' = 6 \<or> dayOfWeek' = 7)
      | Cafe \<Rightarrow> calculateCafePopularity h (dayOfWeek' = 6 \<or> dayOfWeek' = 7)
      | Generic \<Rightarrow> calculateGenericPopularity h (dayOfWeek' = 6 \<or> dayOfWeek' = 7))"

section \<open>The static server: simulated live data behind a cache\<close>

record BusyTime =
  hour_b :: string
  percentage :: int
  isPredicted :: bool

text \<open>\<^verbatim>\<open>Math.round\<close>: to the nearest integer, halves upwards; no rounding error.\<close>

definition Math_round :: "rat \<Rightarrow> int" where
  "Math_round x = \<lfloor>x + 1 / 2\<rfloor>"

definition hours :: "string list" where
  "hours =
     [''10AM'', ''11AM'', ''12PM'', ''1PM'', ''2PM'', ''3PM'', ''4PM'', ''5PM'',
      ''6PM'', ''7PM'', ''8PM'', ''9PM'', ''10PM'', ''11PM'', ''12AM'', ''1AM'', ''2AM'', ''3AM'']"

text \<open>
  \<open>random idx\<close> is what the call of \<^verbatim>\<open>Math.random()\<close> for the point at \<open>idx\<close> returns. The
  base is a small integer, computed without rounding.
\<close>

definition generateBusyTimes :: "(nat \<Rightarrow> rat) \<Rightarrow> BusyTime list" where
  "generateBusyTimes random =
     map (\<lambda>(h, idx).
            let base = (if idx < 8 then 10 + int idx * 2 else 20 + (int idx - 8) * 10);
                pct = max 0 (min 100
                        (Math_round (fadd (of_int base) (fsub (fmul (random idx) 10) 5))))
            in \<lparr>hour_b = h, percentage = pct, isPredicted = False\<rparr>)
         (zip hours [0..<length hours])"

text \<open>
  A random source for examples: every draw is one half, so that the jitter
  \<^verbatim>\<open>Math.random() * 10 - 5\<close> is 0.
\<close>

definition noJitter :: "nat \<Rightarrow> rat" where
  "noJitter idx = 1 / 2"

text \<open>A venue of \<^verbatim>\<open>venues.json\<close>; \<open>capacity\<close> is \<open>None\<close> when the field is not a number.\<close>

record JsonVenue =
  id_j :: string
  capacity :: "int option"

record LiveData =
  currentStatus_l :: BusyStatus
  currentOccupancy_l :: int
  busyTimes :: "BusyTime list"

definition computeLiveDataForVenue :: "(nat \<Rightarrow> rat) \<Rightarrow> JsonVenue \<Rightarrow> LiveData" where
  "computeLiveDataForVenue random venue =
     (let bt = generateBusyTimes random;
          lastPoint = bt ! nat (max 0 (int (length bt) - 1));
          occ = (case capacity venue of
                   Some c \<Rightarrow>
                     min c (Math_round
                              (fdiv (fmul (of_int c) (of_int (percentage lastPoint))) 100))
                 | None \<Rightarrow> Math_round (fmul 200 (fdiv (of_int (percentage lastPoint)) 100)));
          currentPct = (case capacity venue of
                          Some c \<Rightarrow>
                            (if c > 0 then Math_round (fmul (fdiv (of_int occ) (of_int c)) 100)
                             else percentage lastPoint)
                        | None \<Rightarrow> percentage lastPoint)
      in \<lparr>currentStatus_l = statusFromOccupancy currentPct,
          currentOccupancy_l = occ,
          busyTimes = bt\<rparr>)"

text \<open>
  The cache library keeps a value with the time at which it expires; a read after that
  time finds nothing. \<open>stdTTL\<close> is in seconds, times are in milliseconds. A time to live of
  0 means that the value never expires: its expiry time is stored as 0.
\<close>

type_synonym LiveCache = "string \<rightharpoonup> (LiveData \<times> int)"

record Env =
  now_e :: int
  stdTTL :: int
  random_e :: "nat \<Rightarrow> rat"

record ServerState =
  liveCache :: LiveCache
  draws :: nat

definition cache_get :: "LiveCache \<Rightarrow> int \<Rightarrow> string \<Rightarrow> LiveData option" where
  "cache_get c t k =
     (case c k of
        None \<Rightarrow> None
      | Some (v, expires) \<Rightarrow> if expires \<noteq> 0 \<and> expires < t then None else Some v)"

definition cache_set :: "LiveCache \<Rightarrow> int \<Rightarrow> int \<Rightarrow> string \<Rightarrow> LiveData \<Rightarrow> LiveCache" where
  "cache_set c t ttl k v = c(k \<mapsto> (v, if ttl = 0 then 0 else t + ttl * 1000))"

text \<open>
  Both live routes read the cache and, on a miss, compute and store: the same five lines
  in each. A computation draws 18 random numbers, one for each point.
\<close>

definition cachedLiveData ::
  "Env \<Rightarrow> JsonVenue \<Rightarrow> string \<Rightarrow> ServerState \<Rightarrow> LiveData \<times> ServerState" where
  "cachedLiveData env venue cacheKey st =
     (case cache_get (liveCache st) (now_e env) cacheKey of
        Some liveData \<Rightarrow> (liveData, st)
      | None \<Rightarrow>
          (let liveData = computeLiveDataForVenue (\<lambda>idx. random_e env (draws st + idx)) venue
           in (liveData,
               \<lparr>liveCache = cache_set (liveCache st) (now_e env) (stdTTL env) cacheKey liveData,
                draws = draws st + length hours\<rparr>)))"

record LiveResponse =
  venueId_l :: string
  liveData :: LiveData

text \<open>
  \<^verbatim>\<open>GET /api/venues/:id/live\<close>. \<open>data\<close> is what \<^verbatim>\<open>readJSON\<close> found: \<open>None\<close> when the file is
  missing or holds no array of venues.
\<close>

definition getLive ::
  "Env \<Rightarrow> JsonVenue list option \<Rightarrow> string \<Rightarrow> ServerState \<Rightarrow> (error + LiveResponse) \<times> ServerState"
  where
  "getLive env data i st =
     (case data of
        None \<Rightarrow> (Inl (HttpError 500 ''venues.json missing or malformed''), st)
      | Some venues \<Rightarrow>
          (case find (\<lambda>v. id_j v = i) venues of
             None \<Rightarrow> (Inl (HttpError 404 ''Venue not found''), st)
           | Some venue \<Rightarrow>
               (let (ld, st') = cachedLiveData env venue (''live:'' @ id_j venue) st
                in (Inr \<lparr>venueId_l = id_j venue, liveData = ld\<rparr>, st'))))"

record BatchResult =
  venueId_b :: string
  liveData_b :: LiveData

text \<open>The \<^verbatim>\<open>venueIds.map\<close> of the batch route, left to right, with its effect on the cache.\<close>

fun batchMap ::
  "Env \<Rightarrow> JsonVenue list \<Rightarrow> string list \<Rightarrow> ServerState \<Rightarrow> BatchResult option list \<times> ServerState"
  where
  "batchMap env venues [] st = ([], st)"
| "batchMap env venues (i # ids) st =
     (case find (\<lambda>v. id_j v = i) venues of
        None \<Rightarrow> (let (rs, st') = batchMap env venues ids st in (None # rs, st'))
      | Some venue \<Rightarrow>
          (let (ld, st1) = cachedLiveData env venue (''live:'' @ i) st;
               (rs, st2) = batchMap env venues ids st1
           in (Some \<lparr>venueId_b = i, liveData_b = ld\<rparr> # rs, st2)))"

text \<open>
  \<^verbatim>\<open>POST /api/venues/live-batch\<close>. \<open>body\<close> is \<open>None\<close> when the request carries no array
  \<^verbatim>\<open>venueIds\<close>; \<^verbatim>\<open>filter(Boolean)\<close> drops the nulls.
\<close>

definition liveBatch ::
  "Env \<Rightarrow> string list option \<Rightarrow> JsonVenue list option \<Rightarrow> ServerState
     \<Rightarrow> (error + BatchResult list) \<times> ServerState" where
  "liveBatch env body data st =
     (case body of
        None \<Rightarrow> (Inl (HttpError 400 ''Body must include { venueIds: string[] }''), st)
      | Some venueIds \<Rightarrow>
          (case data of
             None \<Rightarrow> (Inl (HttpError 500 ''venues.json missing or malformed''), st)
           | Some venues \<Rightarrow>
               (let (rs, st') = batchMap env venues venueIds st
                in (Inr (map the (filter (\<lambda>r. r \<noteq> None) rs)), st'))))"

section \<open>Properties of the aggregator\<close>

subsection \<open>Auxiliary facts\<close>

lemma reduce_nonempty: "xs \<noteq> [] \<Longrightarrow> reduce f xs = Inr (foldl f (hd xs) (tl xs))"
  by (cases xs) simp_all

lemma mapE_total: "(\<And>x. x \<in> set xs \<Longrightarrow> f x = Inr (g x)) \<Longrightarrow> mapE f xs = Inr (map g xs)"
  by (induction xs) simp_all

lemma hourlyAverages_length: "length (hourlyAverages m) = 24"
  by (simp add: hourlyAverages_def)

lemma hourlyAverages_nonempty: "hourlyAverages m \<noteq> []"
  using hourlyAverages_length [of m] by auto

lemma hourlyAverages_nth:
  "h < 24 \<Longrightarrow> hourlyAverages m ! h =
     (case m h of
        Some d \<Rightarrow> \<lparr>hour = h, averageOccupancy = fdiv (total_h d) (of_nat (count_h d)),
                   peakOccupancy = peak_h d\<rparr>
      | None \<Rightarrow> \<lparr>hour = h, averageOccupancy = 0, peakOccupancy = 0\<rparr>)"
  by (simp add: hourlyAverages_def split: option.splits)

lemma hourlyAverages_hour: "h < 24 \<Longrightarrow> hour (hourlyAverages m ! h) = h"
  by (simp add: hourlyAverages_nth split: option.splits)

lemma dailyAverages_eq:
  "ha \<noteq> [] \<Longrightarrow> dailyAverages ha dd =
     Inr (map (\<lambda>day. \<lparr>dayOfWeek = day,
                       averageOccupancy_d =
                         (case dd day of
                            Some d \<Rightarrow> fdiv (total_d d) (of_nat (count_d d))
                          | None \<Rightarrow> 0),
                       peakHour = hour (foldl pickPeak (hd ha) (tl ha))\<rparr>) [0..<7])"
  unfolding dailyAverages_def by (rule mapE_total) (simp add: reduce_nonempty)

lemma aggregate_eq:
  "aggregate snapshots =
     Inr (hourlyAverages (hourlyData snapshots),
          map (\<lambda>day. \<lparr>dayOfWeek = day,
                       averageOccupancy_d =
                         (case dailyData snapshots day of
                            Some d \<Rightarrow> fdiv (total_d d) (of_nat (count_d d))
                          | None \<Rightarrow> 0),
                       peakHour = hour (foldl pickPeak (hd (hourlyAverages (hourlyData snapshots)))
                                          (tl (hourlyAverages (hourlyData snapshots))))\<rparr>) [0..<7])"
  by (simp add: aggregate_def Let_def dailyAverages_eq [OF hourlyAverages_nonempty])

lemma fold_hourlyStep_absent:
  "\<forall>s\<in>set snaps. getHours (timestamp s) \<noteq> h \<Longrightarrow> fold hourlyStep snaps m h = m h"
  by (induction snaps arbitrary: m) (simp_all add: hourlyStep_def Let_def)

lemma fold_dailyStep_absent:
  "\<forall>s\<in>set snaps. getDay (timestamp s) \<noteq> d \<Longrightarrow> fold dailyStep snaps m d = m d"
  by (induction snaps arbitrary: m) (simp_all add: dailyStep_def Let_def)

















lemma double_examples:
  "fadd 0 70 = 70" "fadd 70 90 = 160" "fdiv 160 2 = 80" "fadd 0 10 = 10" "fdiv 10 1 = 10"
  by code_simp+


lemma fold_hourlyStep_count:
  "(\<And>h b. m h = Some b \<Longrightarrow> 0 < count_h b) \<Longrightarrow> fold hourlyStep snaps m h = Some b \<Longrightarrow> 0 < count_h b"
proof (induction snaps arbitrary: m)
  case Nil
  then show ?case by simp
next
  case (Cons s ss)
  have "\<And>h b. hourlyStep s m h = Some b \<Longrightarrow> 0 < count_h b"
    using Cons.prems(1) by (auto simp: hourlyStep_def Let_def split: if_splits option.splits)
  from Cons.IH [OF this] Cons.prems(2) show ?case by simp
qed

lemma fold_dailyStep_count:
  "(\<And>h b. m h = Some b \<Longrightarrow> 0 < count_d b) \<Longrightarrow> fold dailyStep snaps m h = Some b \<Longrightarrow> 0 < count_d b"
proof (induction snaps arbitrary: m)
  case Nil
  then show ?case by simp
next
  case (Cons s ss)
  have "\<And>h b. dailyStep s m h = Some b \<Longrightarrow> 0 < count_d b"
    using Cons.prems(1) by (auto simp: dailyStep_def Let_def split: if_splits option.splits)
  from Cons.IH [OF this] Cons.prems(2) show ?case by simp
qed

lemma foldl_pickPeak_first:
  "\<exists>i<length (x # xs). foldl pickPeak x xs = (x # xs) ! i
      \<and> (\<forall>j<i. averageOccupancy ((x # xs) ! j) < averageOccupancy ((x # xs) ! i))
      \<and> (\<forall>j<length (x # xs). averageOccupancy ((x # xs) ! j) \<le> averageOccupancy ((x # xs) ! i))"
proof (induction xs rule: rev_induct)
  case Nil
  show ?case by simp
next
  case (snoc y ys)
  then obtain i where i: "i < length (x # ys)" "foldl pickPeak x ys = (x # ys) ! i"
    and lt: "\<forall>j<i. averageOccupancy ((x # ys) ! j) < averageOccupancy ((x # ys) ! i)"
    and le: "\<forall>j<length (x # ys). averageOccupancy ((x # ys) ! j) \<le> averageOccupancy ((x # ys) ! i)"
    by blast
  let ?zs = "x # ys @ [y]"
  have old: "\<And>j. j < length (x # ys) \<Longrightarrow> ?zs ! j = (x # ys) ! j"
    by (metis append_Cons nth_append)
  have new: "?zs ! length (x # ys) = y"
    by (metis append_Cons nth_append_length)
  show ?case
  proof (cases "averageOccupancy y > averageOccupancy ((x # ys) ! i)")
    case True
    have res: "foldl pickPeak x (ys @ [y]) = ?zs ! length (x # ys)"
      using True i(2) new by (simp add: pickPeak_def)
    have "\<forall>j<length (x # ys). averageOccupancy (?zs ! j) < averageOccupancy (?zs ! length (x # ys))"
      using le True old new by (metis le_less_trans)
    moreover have "\<forall>j<length ?zs. averageOccupancy (?zs ! j) \<le> averageOccupancy (?zs ! length (x # ys))"
    proof (intro allI impI)
      fix j assume "j < length ?zs"
      then consider "j < length (x # ys)" | "j = length (x # ys)" by fastforce
      then show "averageOccupancy (?zs ! j) \<le> averageOccupancy (?zs ! length (x # ys))"
        using calculation by cases auto
    qed
    ultimately show ?thesis
      using res by (intro exI [of _ "length (x # ys)"]) simp
  next
    case False
    have res: "foldl pickPeak x (ys @ [y]) = ?zs ! i"
      using False i old by (simp add: pickPeak_def)
    have "\<forall>j<i. averageOccupancy (?zs ! j) < averageOccupancy (?zs ! i)"
      using lt old i(1) by (metis less_trans)
    moreover have "\<forall>j<length ?zs. averageOccupancy (?zs ! j) \<le> averageOccupancy (?zs ! i)"
    proof (intro allI impI)
      fix j assume "j < length ?zs"
      then consider "j < length (x # ys)" | "j = length (x # ys)" by fastforce
      then show "averageOccupancy (?zs ! j) \<le> averageOccupancy (?zs ! i)"
      proof cases
        case 1
        then show ?thesis using le old i(1) by metis
      next
        case 2
        then show ?thesis using False new old i(1) by (metis not_less)
      qed
    qed
    ultimately show ?thesis
      using res i(1) by (intro exI [of _ i]) simp
  qed
qed

lemma hourlyAverages_eqI:
  "(\<And>h. h < 24 \<Longrightarrow> hourlyAverages m ! h = f h) \<Longrightarrow> hourlyAverages m = map f [0..<24]"
  by (rule nth_equalityI) (simp_all add: hourlyAverages_length)

lemma hourlyData_count: "hourlyData snapshots h = Some b \<Longrightarrow> 0 < count_h b"
  unfolding hourlyData_def by (rule fold_hourlyStep_count [of Map.empty]) simp_all

lemma dailyData_count: "dailyData snapshots d = Some b \<Longrightarrow> 0 < count_d b"
  unfolding dailyData_def by (rule fold_dailyStep_count [of Map.empty]) simp_all

lemma aggregate_empty:
  "aggregate [] =
     Inr (map (\<lambda>h. \<lparr>hour = h, averageOccupancy = 0, peakOccupancy = 0\<rparr>) [0..<24],
          map (\<lambda>d. \<lparr>dayOfWeek = d, averageOccupancy_d = 0, peakHour = 0\<rparr>) [0..<7])"
proof -
  have ha: "hourlyAverages (hourlyData []) =
      map (\<lambda>h. \<lparr>hour = h, averageOccupancy = 0, peakOccupancy = 0\<rparr>) [0..<24]"
    by (simp add: hourlyAverages_def hourlyData_def)
  have cons: "[0..<24] = 0 # [1..<24]"
    by (simp add: upt_conv_Cons)
  have pk: "foldl pickPeak x (map (\<lambda>h. \<lparr>hour = h, averageOccupancy = 0, peakOccupancy = 0\<rparr>) ns) = x"
    if "averageOccupancy x = 0" for x ns
    using that by (induction ns) (simp_all add: pickPeak_def)
  show ?thesis
    unfolding aggregate_eq ha by (simp add: cons pk dailyData_def del: upt_Suc)
qed

subsection \<open>Shape of the result\<close>

text \<open>
  Claim C1. Whatever the window of snapshots, empty or not, the aggregation returns 24
  hourly entries whose \<open>hour\<close> fields are 0 to 23 in order and 7 daily entries whose
  \<open>dayOfWeek\<close> fields are 0 to 6 in order; an hour that no snapshot of the window falls
  into is present with average 0 and peak 0.
\<close>

theorem aggregate_shape:
  "\<exists>ha da. aggregate snapshots = Inr (ha, da)
     \<and> length ha = 24 \<and> (\<forall>h<24. hour (ha ! h) = h)
     \<and> length da = 7 \<and> (\<forall>d<7. dayOfWeek (da ! d) = d)
     \<and> (\<forall>h<24. (\<forall>s\<in>set snapshots. getHours (timestamp s) \<noteq> h) \<longrightarrow>
            averageOccupancy (ha ! h) = 0 \<and> peakOccupancy (ha ! h) = 0)"
proof -
  let ?ha = "hourlyAverages (hourlyData snapshots)"
  obtain da where agg: "aggregate snapshots = Inr (?ha, da)"
    and da: "da = map (\<lambda>day. \<lparr>dayOfWeek = day,
                       averageOccupancy_d =
                         (case dailyData snapshots day of
                            Some d \<Rightarrow> fdiv (total_d d) (of_nat (count_d d))
                          | None \<Rightarrow> 0),
                       peakHour = hour (foldl pickPeak (hd ?ha) (tl ?ha))\<rparr>) [0..<7]"
    using aggregate_eq [of snapshots] by blast
  have len_da: "length da = 7" by (simp add: da)
  have day: "\<forall>d<7. dayOfWeek (da ! d) = d" by (simp add: da)
  have zero: "\<forall>h<24. (\<forall>s\<in>set snapshots. getHours (timestamp s) \<noteq> h) \<longrightarrow>
            averageOccupancy (?ha ! h) = 0 \<and> peakOccupancy (?ha ! h) = 0"
  proof (intro allI impI)
    fix h :: nat assume h: "h < 24" and none: "\<forall>s\<in>set snapshots. getHours (timestamp s) \<noteq> h"
    have "hourlyData snapshots h = None"
      unfolding hourlyData_def using fold_hourlyStep_absent [OF none] by simp
    then show "averageOccupancy (?ha ! h) = 0 \<and> peakOccupancy (?ha ! h) = 0"
      using h by (simp add: hourlyAverages_nth)
  qed
  show ?thesis
    using agg hourlyAverages_length hourlyAverages_hour len_da day zero by blast
qed

theorem aggregate_shape_witness:
  "\<exists>ha da. aggregate [\<lparr>venueId = ''V1'', timestamp = \<lparr>getTime = 0, getHours = 20, getDay = 4\<rparr>,
                          occupancyCount = 7, occupancyPercentage = 70, status = BUSY,
                          source = ''seed''\<rparr>] = Inr (ha, da)
     \<and> length ha = 24 \<and> hour (ha ! 5) = 5 \<and> length da = 7 \<and> dayOfWeek (da ! 2) = 2
     \<and> averageOccupancy (ha ! 5) = 0 \<and> peakOccupancy (ha ! 5) = 0"
  using aggregate_shape [of "[\<lparr>venueId = ''V1'', timestamp = \<lparr>getTime = 0, getHours = 20, getDay = 4\<rparr>,
                          occupancyCount = 7, occupancyPercentage = 70, status = BUSY,
                          source = ''seed''\<rparr>]"]
  by fastforce

subsection \<open>Order of the snapshots\<close>




subsection \<open>The peak hour\<close>

text \<open>
  Claim C4. All seven daily entries carry one and the same \<open>peakHour\<close>: the hour \<open>p\<close> whose
  average over the whole window is maximal among the 24 hourly averages (the earliest
  such hour when several are maximal). It is fixed by the hourly averages alone, which
  do not look at the day of the week.
\<close>

theorem peakHour_global:
  "\<exists>ha da p. aggregate snapshots = Inr (ha, da) \<and> length da = 7 \<and> p < 24
     \<and> (\<forall>d<7. peakHour (da ! d) = p)
     \<and> (\<forall>h<24. averageOccupancy (ha ! h) \<le> averageOccupancy (ha ! p))
     \<and> (\<forall>h<p. averageOccupancy (ha ! h) < averageOccupancy (ha ! p))"
proof -
  let ?ha = "hourlyAverages (hourlyData snapshots)"
  let ?pk = "foldl pickPeak (hd ?ha) (tl ?ha)"
  obtain da where agg: "aggregate snapshots = Inr (?ha, da)"
    and da: "da = map (\<lambda>day. \<lparr>dayOfWeek = day,
                       averageOccupancy_d =
                         (case dailyData snapshots day of
                            Some d \<Rightarrow> fdiv (total_d d) (of_nat (count_d d))
                          | None \<Rightarrow> 0),
                       peakHour = hour ?pk\<rparr>) [0..<7]"
    using aggregate_eq [of snapshots] by blast
  have cons: "hd ?ha # tl ?ha = ?ha"
    using hourlyAverages_nonempty by simp
  obtain p where p: "p < length ?ha" "?pk = ?ha ! p"
    and lt: "\<forall>j<p. averageOccupancy (?ha ! j) < averageOccupancy (?ha ! p)"
    and le: "\<forall>j<length ?ha. averageOccupancy (?ha ! j) \<le> averageOccupancy (?ha ! p)"
    using foldl_pickPeak_first [of "hd ?ha" "tl ?ha"] unfolding cons by blast
  have p24: "p < 24" using p(1) by (simp add: hourlyAverages_length)
  have hp: "hour ?pk = p" using p(2) p24 by (simp add: hourlyAverages_hour)
  have "\<forall>d<7. peakHour (da ! d) = p" by (simp add: da hp)
  moreover have "length da = 7" by (simp add: da)
  moreover have "\<forall>h<24. averageOccupancy (?ha ! h) \<le> averageOccupancy (?ha ! p)"
    using le by (simp add: hourlyAverages_length)
  ultimately show ?thesis using agg p24 lt by blast
qed

theorem peakHour_global_witness:
  "\<exists>ha da. aggregate
      [\<lparr>venueId = ''V1'', timestamp = \<lparr>getTime = 0, getHours = 20, getDay = 5\<rparr>,
        occupancyCount = 7, occupancyPercentage = 70, status = BUSY, source = ''seed''\<rparr>,
       \<lparr>venueId = ''V1'', timestamp = \<lparr>getTime = 0, getHours = 3, getDay = 6\<rparr>,
        occupancyCount = 1, occupancyPercentage = 10, status = QUIET, source = ''seed''\<rparr>]
      = Inr (ha, da) \<and> length da = 7 \<and> peakHour (da ! 0) = peakHour (da ! 6)
        \<and> averageOccupancy (ha ! 3) \<le> averageOccupancy (ha ! peakHour (da ! 6))"
  using peakHour_global [of "[\<lparr>venueId = ''V1'', timestamp = \<lparr>getTime = 0, getHours = 20, getDay = 5\<rparr>,
        occupancyCount = 7, occupancyPercentage = 70, status = BUSY, source = ''seed''\<rparr>,
       \<lparr>venueId = ''V1'', timestamp = \<lparr>getTime = 0, getHours = 3, getDay = 6\<rparr>,
        occupancyCount = 1, occupancyPercentage = 10, status = QUIET, source = ''seed''\<rparr>]"]
  by fastforce

subsection \<open>A worked window\<close>

text \<open>
  Claim C3. A window with two snapshots at local hour 20, of 70 and 90 percent, and one
  at local hour 3, of 10 percent, gives average 80 and peak 90 at hour 20, average 10 and
  peak 10 at hour 3, and average 0 and peak 0 at each of the other 22 hours. The other
  fields of the three snapshots do not matter.
\<close>

theorem aggregate_scenario:
  "\<exists>da. aggregate
      [\<lparr>venueId = ''V1'', timestamp = \<lparr>getTime = t1, getHours = 20, getDay = d1\<rparr>,
        occupancyCount = c1, occupancyPercentage = 70, status = s1, source = src1\<rparr>,
       \<lparr>venueId = ''V1'', timestamp = \<lparr>getTime = t2, getHours = 20, getDay = d2\<rparr>,
        occupancyCount = c2, occupancyPercentage = 90, status = s2, source = src2\<rparr>,
       \<lparr>venueId = ''V1'', timestamp = \<lparr>getTime = t3, getHours = 3, getDay = d3\<rparr>,
        occupancyCount = c3, occupancyPercentage = 10, status = s3, source = src3\<rparr>]
     = Inr (map (\<lambda>h. if h = 20 then \<lparr>hour = 20, averageOccupancy = 80, peakOccupancy = 90\<rparr>
                     else if h = 3 then \<lparr>hour = 3, averageOccupancy = 10, peakOccupancy = 10\<rparr>
                     else \<lparr>hour = h, averageOccupancy = 0, peakOccupancy = 0\<rparr>) [0..<24], da)"
proof -
  let ?snaps = "[\<lparr>venueId = ''V1'', timestamp = \<lparr>getTime = t1, getHours = 20, getDay = d1\<rparr>,
        occupancyCount = c1, occupancyPercentage = 70, status = s1, source = src1\<rparr>,
       \<lparr>venueId = ''V1'', timestamp = \<lparr>getTime = t2, getHours = 20, getDay = d2\<rparr>,
        occupancyCount = c2, occupancyPercentage = 90, status = s2, source = src2\<rparr>,
       \<lparr>venueId = ''V1'', timestamp = \<lparr>getTime = t3, getHours = 3, getDay = d3\<rparr>,
        occupancyCount = c3, occupancyPercentage = 10, status = s3, source = src3\<rparr>]"
  have "hourlyAverages (hourlyData ?snaps)
     = map (\<lambda>h. if h = 20 then \<lparr>hour = 20, averageOccupancy = 80, peakOccupancy = 90\<rparr>
                     else if h = 3 then \<lparr>hour = 3, averageOccupancy = 10, peakOccupancy = 10\<rparr>
                     else \<lparr>hour = h, averageOccupancy = 0, peakOccupancy = 0\<rparr>) [0..<24]"
    by (rule hourlyAverages_eqI)
       (simp add: hourlyAverages_nth hourlyData_def hourlyStep_def Let_def double_examples)
  then show ?thesis
    using aggregate_eq [of ?snaps] by simp
qed

subsection \<open>No failing branch\<close>

text \<open>
  Claim C5. The aggregation returns a result for every window, never an error: the only
  throwing operation, the reduction without initial value, always meets 24 entries. No
  bucket is ever divided by a zero count, because a bucket exists only once a snapshot
  was added to it. On the empty window all 24 hourly and all 7 daily averages are 0. At
  the route, a known venue always gets a result, and the all-zero one when none of its
  snapshots lies in the 30 days.
\<close>

theorem aggregate_total:
  "(\<exists>r. aggregate snapshots = Inr r)
   \<and> (\<forall>h b. hourlyData snapshots h = Some b \<longrightarrow> 0 < count_h b)
   \<and> (\<forall>d b. dailyData snapshots d = Some b \<longrightarrow> 0 < count_d b)
   \<and> aggregate [] =
       Inr (map (\<lambda>h. \<lparr>hour = h, averageOccupancy = 0, peakOccupancy = 0\<rparr>) [0..<24],
            map (\<lambda>d. \<lparr>dayOfWeek = d, averageOccupancy_d = 0, peakHour = 0\<rparr>) [0..<7])
   \<and> (findUnique (venue_table db) i \<noteq> None \<longrightarrow> (\<exists>r. busyAggregates db now i = Inr r))
   \<and> (findUnique (venue_table db) i \<noteq> None \<and>
        (\<forall>s\<in>set (busySnapshot_table db).
           venueId s = i \<longrightarrow> getTime (timestamp s) < now - 30 * 24 * 60 * 60 * 1000) \<longrightarrow>
        busyAggregates db now i =
          Inr \<lparr>venueId_a = i,
               hourlyAverages_a =
                 map (\<lambda>h. \<lparr>hour = h, averageOccupancy = 0, peakOccupancy = 0\<rparr>) [0..<24],
               dailyAverages_a =
                 map (\<lambda>d. \<lparr>dayOfWeek = d, averageOccupancy_d = 0, peakHour = 0\<rparr>) [0..<7],
               weeklyAverages_a = []\<rparr>)"
proof -
  have total: "\<exists>r. aggregate xs = Inr r" for xs
    using aggregate_eq [of xs] by blast
  have ep: "\<exists>r. busyAggregates db now i = Inr r" if "findUnique (venue_table db) i \<noteq> None"
  proof -
    from that obtain v where v: "findUnique (venue_table db) i = Some v" by blast
    let ?w = "filter (\<lambda>s. venueId s = i \<and> getTime (timestamp s) \<ge> now - 30 * 24 * 60 * 60 * 1000)
                (busySnapshot_table db)"
    obtain ha da where "aggregate ?w = Inr (ha, da)"
      using aggregate_eq [of ?w] by blast
    then show ?thesis
      by (simp add: busyAggregates_def v Let_def)
  qed
  have empty: "busyAggregates db now i =
          Inr \<lparr>venueId_a = i,
               hourlyAverages_a =
                 map (\<lambda>h. \<lparr>hour = h, averageOccupancy = 0, peakOccupancy = 0\<rparr>) [0..<24],
               dailyAverages_a =
                 map (\<lambda>d. \<lparr>dayOfWeek = d, averageOccupancy_d = 0, peakHour = 0\<rparr>) [0..<7],
               weeklyAverages_a = []\<rparr>"
    if known: "findUnique (venue_table db) i \<noteq> None"
      and old: "\<forall>s\<in>set (busySnapshot_table db).
           venueId s = i \<longrightarrow> getTime (timestamp s) < now - 30 * 24 * 60 * 60 * 1000"
  proof -
    from known obtain v where v: "findUnique (venue_table db) i = Some v" by blast
    have "filter (\<lambda>s. venueId s = i \<and> getTime (timestamp s) \<ge> now - 30 * 24 * 60 * 60 * 1000)
                (busySnapshot_table db) = []"
      using old by (auto simp: filter_empty_conv)
    then show ?thesis
      by (simp add: busyAggregates_def v Let_def aggregate_empty del: upt_Suc)
  qed
  show ?thesis
    using total [of snapshots] hourlyData_count dailyData_count aggregate_empty ep empty
    by blast
qed

theorem aggregate_total_witness:
  "(\<exists>r. aggregate [\<lparr>venueId = ''1'', timestamp = \<lparr>getTime = 0, getHours = 20, getDay = 4\<rparr>,
                     occupancyCount = 7, occupancyPercentage = 70, status = BUSY,
                     source = ''seed''\<rparr>] = Inr r)
   \<and> busyAggregates
         \<lparr>venue_table = [\<lparr>id_v = ''1'', category_v = ''Bar''\<rparr>],
          busySnapshot_table =
            [\<lparr>venueId = ''1'', timestamp = \<lparr>getTime = 0, getHours = 20, getDay = 4\<rparr>,
              occupancyCount = 7, occupancyPercentage = 70, status = BUSY, source = ''seed''\<rparr>]\<rparr>
         2592000001 ''1'' =
       Inr \<lparr>venueId_a = ''1'',
            hourlyAverages_a =
              map (\<lambda>h. \<lparr>hour = h, averageOccupancy = 0, peakOccupancy = 0\<rparr>) [0..<24],
            dailyAverages_a =
              map (\<lambda>d. \<lparr>dayOfWeek = d, averageOccupancy_d = 0, peakHour = 0\<rparr>) [0..<7],
            weeklyAverages_a = []\<rparr>"
  using aggregate_total
    [of "[\<lparr>venueId = ''1'', timestamp = \<lparr>getTime = 0, getHours = 20, getDay = 4\<rparr>,
           occupancyCount = 7, occupancyPercentage = 70, status = BUSY, source = ''seed''\<rparr>]"
        "\<lparr>venue_table = [\<lparr>id_v = ''1'', category_v = ''Bar''\<rparr>],
          busySnapshot_table =
            [\<lparr>venueId = ''1'', timestamp = \<lparr>getTime = 0, getHours = 20, getDay = 4\<rparr>,
              occupancyCount = 7, occupancyPercentage = 70, status = BUSY, source = ''seed''\<rparr>]\<rparr>"
        "''1''" 2592000001]
  by (simp add: findUnique_def del: upt_Suc)

section \<open>Properties of the venue listing\<close>

lemma sorted_le_last: "sorted zs \<Longrightarrow> z \<in> set zs \<Longrightarrow> z \<le> last zs"
  for zs :: "int list"
proof (induction zs rule: rev_induct)
  case Nil
  then show ?case by simp
next
  case (snoc y ys)
  then show ?case by (auto simp: sorted_append)
qed

lemma latest_of_sort:
  fixes f :: "'a \<Rightarrow> int"
  assumes "xs \<noteq> []"
  shows "\<exists>s. take 1 (rev (sort_key f xs)) = [s] \<and> s \<in> set xs \<and> (\<forall>t\<in>set xs. f t \<le> f s)"
proof -
  let ?ys = "sort_key f xs"
  have ne: "?ys \<noteq> []" using assms by (metis length_sort length_0_conv)
  have "take 1 zs = [hd zs]" if "zs \<noteq> []" for zs :: "'a list"
    using that by (cases zs) simp_all
  from this [of "rev ?ys"] ne have tk: "take 1 (rev ?ys) = [last ?ys]"
    by (simp add: hd_rev)
  have mem: "last ?ys \<in> set xs" using ne by (metis last_in_set set_sort)
  have "f t \<le> f (last ?ys)" if "t \<in> set xs" for t
  proof -
    have "f t \<in> set (map f ?ys)" using that by simp
    then have "f t \<le> last (map f ?ys)"
      using sorted_sort_key [of f xs] sorted_le_last by blast
    then show ?thesis using ne by (simp add: last_map)
  qed
  then show ?thesis using tk mem by blast
qed

text \<open>
  Claim C10. The listing returns one entry for each selected venue, in order. A venue
  none of whose snapshots is at most 24 hours old is reported with status MODERATE,
  occupancy 0 and percentage 0. Otherwise the three fields are those of one snapshot of
  the venue from the last 24 hours whose timestamp is the latest among them.
\<close>

theorem venuesWithStatus_latest:
  "length (venuesWithStatus db now venues) = length venues
   \<and> (\<forall>n<length venues.
        venue_w (venuesWithStatus db now venues ! n) = venues ! n
        \<and> (recentSnapshots db now (venues ! n) = [] \<longrightarrow>
              currentStatus (venuesWithStatus db now venues ! n) = MODERATE
              \<and> currentOccupancy (venuesWithStatus db now venues ! n) = 0
              \<and> occupancyPercentage_w (venuesWithStatus db now venues ! n) = 0)
        \<and> (recentSnapshots db now (venues ! n) \<noteq> [] \<longrightarrow>
              (\<exists>s\<in>set (recentSnapshots db now (venues ! n)).
                 (\<forall>t\<in>set (recentSnapshots db now (venues ! n)).
                    getTime (timestamp t) \<le> getTime (timestamp s))
                 \<and> currentStatus (venuesWithStatus db now venues ! n) = status s
                 \<and> currentOccupancy (venuesWithStatus db now venues ! n) = occupancyCount s
                 \<and> occupancyPercentage_w (venuesWithStatus db now venues ! n)
                     = occupancyPercentage s)))"
proof -
  have one: "venue_w (withStatus v (includeBusySnapshots db now v)) = v
        \<and> (recentSnapshots db now v = [] \<longrightarrow>
              currentStatus (withStatus v (includeBusySnapshots db now v)) = MODERATE
              \<and> currentOccupancy (withStatus v (includeBusySnapshots db now v)) = 0
              \<and> occupancyPercentage_w (withStatus v (includeBusySnapshots db now v)) = 0)
        \<and> (recentSnapshots db now v \<noteq> [] \<longrightarrow>
              (\<exists>s\<in>set (recentSnapshots db now v).
                 (\<forall>t\<in>set (recentSnapshots db now v).
                    getTime (timestamp t) \<le> getTime (timestamp s))
                 \<and> currentStatus (withStatus v (includeBusySnapshots db now v)) = status s
                 \<and> currentOccupancy (withStatus v (includeBusySnapshots db now v)) = occupancyCount s
                 \<and> occupancyPercentage_w (withStatus v (includeBusySnapshots db now v))
                     = occupancyPercentage s))" for v
  proof (cases "recentSnapshots db now v = []")
    case True
    then show ?thesis
      by (simp add: withStatus_def includeBusySnapshots_def)
  next
    case False
    from latest_of_sort [OF False, of "\<lambda>s. getTime (timestamp s)"]
    obtain s where s: "includeBusySnapshots db now v = [s]" "s \<in> set (recentSnapshots db now v)"
      "\<forall>t\<in>set (recentSnapshots db now v). getTime (timestamp t) \<le> getTime (timestamp s)"
      unfolding includeBusySnapshots_def by blast
    have "currentStatus (withStatus v [s]) = status s
        \<and> currentOccupancy (withStatus v [s]) = occupancyCount s
        \<and> occupancyPercentage_w (withStatus v [s]) = occupancyPercentage s
        \<and> venue_w (withStatus v [s]) = v"
      by (simp add: withStatus_def orElse_def)
    then show ?thesis using False s by auto
  qed
  show ?thesis
    unfolding venuesWithStatus_def using one by simp
qed

theorem venuesWithStatus_latest_witness:
  "currentStatus (venuesWithStatus
      \<lparr>venue_table = [], busySnapshot_table =
         [\<lparr>venueId = ''2'', timestamp = \<lparr>getTime = 90000000, getHours = 1, getDay = 5\<rparr>,
           occupancyCount = 12, occupancyPercentage = 20, status = QUIET, source = ''seed''\<rparr>,
          \<lparr>venueId = ''1'', timestamp = \<lparr>getTime = 10, getHours = 0, getDay = 4\<rparr>,
           occupancyCount = 180, occupancyPercentage = 85, status = VERY_BUSY, source = ''seed''\<rparr>]\<rparr>
      100000000 [\<lparr>id_v = ''1'', category_v = ''Bar''\<rparr>, \<lparr>id_v = ''2'', category_v = ''Cafe''\<rparr>] ! 0)
     = MODERATE
   \<and> currentStatus (venuesWithStatus
      \<lparr>venue_table = [], busySnapshot_table =
         [\<lparr>venueId = ''2'', timestamp = \<lparr>getTime = 90000000, getHours = 1, getDay = 5\<rparr>,
           occupancyCount = 12, occupancyPercentage = 20, status = QUIET, source = ''seed''\<rparr>,
          \<lparr>venueId = ''1'', timestamp = \<lparr>getTime = 10, getHours = 0, getDay = 4\<rparr>,
           occupancyCount = 180, occupancyPercentage = 85, status = VERY_BUSY, source = ''seed''\<rparr>]\<rparr>
      100000000 [\<lparr>id_v = ''1'', category_v = ''Bar''\<rparr>, \<lparr>id_v = ''2'', category_v = ''Cafe''\<rparr>] ! 1)
     = QUIET"
  using venuesWithStatus_latest
    [of "\<lparr>venue_table = [], busySnapshot_table =
         [\<lparr>venueId = ''2'', timestamp = \<lparr>getTime = 90000000, getHours = 1, getDay = 5\<rparr>,
           occupancyCount = 12, occupancyPercentage = 20, status = QUIET, source = ''seed''\<rparr>,
          \<lparr>venueId = ''1'', timestamp = \<lparr>getTime = 10, getHours = 0, getDay = 4\<rparr>,
           occupancyCount = 180, occupancyPercentage = 85, status = VERY_BUSY, source = ''seed''\<rparr>]\<rparr>"
        100000000 "[\<lparr>id_v = ''1'', category_v = ''Bar''\<rparr>, \<lparr>id_v = ''2'', category_v = ''Cafe''\<rparr>]"]
  by (simp add: recentSnapshots_def All_less_Suc2 numeral_2_eq_2)

section \<open>Properties of the status classification\<close>

text \<open>
  Claim C6, as the code has it. The seed script's classification has the boundaries 30,
  60 and 80: below 30 is QUIET, 30 to 59 is MODERATE, 60 to 79 is BUSY, 80 and above is
  VERY_BUSY. The static server's \<^verbatim>\<open>statusFromOccupancy\<close> has other boundaries and no
  MODERATE tier: 0 and below is UNKNOWN, 1 to 39 is QUIET, 40 to 74 is BUSY, 75 and above
  is VERY_BUSY.
\<close>

theorem status_thresholds:
  "(pct < 30 \<longrightarrow> seedStatus pct = QUIET)
   \<and> (30 \<le> pct \<and> pct \<le> 59 \<longrightarrow> seedStatus pct = MODERATE)
   \<and> (60 \<le> pct \<and> pct \<le> 79 \<longrightarrow> seedStatus pct = BUSY)
   \<and> (80 \<le> pct \<longrightarrow> seedStatus pct = VERY_BUSY)
   \<and> (pct \<le> 0 \<longrightarrow> statusFromOccupancy pct = UNKNOWN)
   \<and> (1 \<le> pct \<and> pct \<le> 39 \<longrightarrow> statusFromOccupancy pct = QUIET)
   \<and> (40 \<le> pct \<and> pct \<le> 74 \<longrightarrow> statusFromOccupancy pct = BUSY)
   \<and> (75 \<le> pct \<longrightarrow> statusFromOccupancy pct = VERY_BUSY)"
  by (simp add: seedStatus_def statusFromOccupancy_def)

theorem status_thresholds_witness:
  "seedStatus 50 = MODERATE \<and> statusFromOccupancy 50 = BUSY"
  using status_thresholds [of 50] by simp

text \<open>
  The boundaries 30, 60 and 80 are not those of the static server: at 50 percent it
  answers BUSY where they give MODERATE, at 77 percent VERY_BUSY where they give BUSY.
\<close>

theorem status_same_boundaries_counterexample:
  "statusFromOccupancy 50 \<noteq> MODERATE \<and> statusFromOccupancy 77 \<noteq> BUSY
   \<and> statusFromOccupancy 50 = BUSY \<and> statusFromOccupancy 77 = VERY_BUSY"
  by (simp add: statusFromOccupancy_def)

section \<open>Properties of the estimated popular times\<close>

lemma bar_range: "0 \<le> calculateBarPopularity h w f \<and> calculateBarPopularity h w f \<le> 100"
  by (simp add: calculateBarPopularity_def)

lemma restaurant_range:
  "0 \<le> calculateRestaurantPopularity h w \<and> calculateRestaurantPopularity h w \<le> 100"
  by (simp add: calculateRestaurantPopularity_def)

lemma cafe_range: "0 \<le> calculateCafePopularity h w \<and> calculateCafePopularity h w \<le> 100"
  by (simp add: calculateCafePopularity_def)

lemma generic_range:
  "0 \<le> calculateGenericPopularity h w \<and> calculateGenericPopularity h w \<le> 100"
  by (simp add: calculateGenericPopularity_def)

lemma spec_curve_range: "0 \<le> spec_curve cls d h \<and> spec_curve cls d h \<le> 100"
  by (cases cls) (simp_all add: spec_curve_def bar_range restaurant_range cafe_range generic_range)

lemma toLowerCase_keywords:
  "toLowerCase ''bar'' = ''bar''" "toLowerCase ''nightclub'' = ''nightclub''"
  "toLowerCase ''restaurant'' = ''restaurant''" "toLowerCase ''cafe'' = ''cafe''"
  by code_simp+

lemma spec_classify_eq:
  "spec_classify category =
     (if includes_js (toLowerCase category) ''bar'' \<or> includes_js (toLowerCase category) ''nightclub''
      then BarNightclub
      else if includes_js (toLowerCase category) ''restaurant'' then Restaurant
      else if includes_js (toLowerCase category) ''cafe'' then Cafe
      else Generic)"
  by (simp add: spec_classify_def spec_rules_def spec_matches_def includes_js_def
        toLowerCase_keywords)

lemma generateDayPattern_spec:
  "generateDayPattern category d = map (spec_curve (spec_classify category) d) [0..<24]"
proof -
  have clamp: "max 0 (min 100 (spec_curve cls d h)) = spec_curve cls d h" for cls h
    using spec_curve_range [of cls d h] by simp
  have "generateDayPattern category d =
      map (\<lambda>h. max 0 (min 100 (spec_curve (spec_classify category) d h))) [0..<24]"
    unfolding generateDayPattern_def Let_def spec_classify_eq
    by (rule map_cong [OF refl]) (simp add: spec_curve_def)
  then show ?thesis by (simp only: clamp)
qed

lemma classify_empty: "spec_classify '''' = Generic"
  by (simp add: spec_classify_eq includes_js_def toLowerCase_def)

lemma classify_Laundromat: "spec_classify ''Laundromat'' = Generic"
  by code_simp

lemma first_match_examples:
  "spec_classify ''Latin Bar & Nightclub'' = BarNightclub"
  "spec_classify ''Restaurant & Bar'' = BarNightclub"
  "spec_classify ''Cafe Restaurant'' = Restaurant"
  "spec_classify ''Coffee / CAFE'' = Cafe"
  by code_simp+

text \<open>
  Claim C7. For every category string the generated day pattern is the curve of the
  class that the ordered, case-insensitive keyword rules give: bar or nightclub first,
  then restaurant, then cafe, the first rule that matches deciding. A category that
  matches none of the four keywords, such as the empty string or Laundromat, gets the
  generic curve. The generator returns its 24 values for every string; two categories
  that differ only in the case of their letters get the same pattern.
\<close>

theorem generateDayPattern_classifies:
  "generateDayPattern category d = map (spec_curve (spec_classify category) d) [0..<24]
   \<and> length (generateDayPattern category d) = 24
   \<and> spec_classify '''' = Generic
   \<and> spec_classify ''Laundromat'' = Generic
   \<and> spec_classify ''Latin Bar & Nightclub'' = BarNightclub
   \<and> spec_classify ''Restaurant & Bar'' = BarNightclub
   \<and> spec_classify ''Cafe Restaurant'' = Restaurant
   \<and> (spec_classify category = Generic \<longleftrightarrow>
        \<not> spec_matches ''bar'' category \<and> \<not> spec_matches ''nightclub'' category
        \<and> \<not> spec_matches ''restaurant'' category \<and> \<not> spec_matches ''cafe'' category)
   \<and> (toLowerCase category = toLowerCase category' \<longrightarrow>
        generateDayPattern category d = generateDayPattern category' d)"
proof -
  have "length (generateDayPattern category d) = 24"
    by (simp add: generateDayPattern_def Let_def)
  moreover have "spec_classify category = Generic \<longleftrightarrow>
        \<not> spec_matches ''bar'' category \<and> \<not> spec_matches ''nightclub'' category
        \<and> \<not> spec_matches ''restaurant'' category \<and> \<not> spec_matches ''cafe'' category"
    by (simp add: spec_classify_eq spec_matches_def includes_js_def toLowerCase_keywords)
  moreover have "toLowerCase category = toLowerCase category' \<longrightarrow>
        generateDayPattern category d = generateDayPattern category' d"
    by (simp add: generateDayPattern_def)
  ultimately show ?thesis
    using generateDayPattern_spec classify_empty classify_Laundromat first_match_examples
    by blast
qed

theorem generateDayPattern_classifies_witness:
  "generateDayPattern ''Laundromat'' 6 =
     [15, 15, 15, 15, 15, 15, 15, 15, 45, 45, 45, 45, 70, 70, 70, 70, 70, 70,
      80, 80, 80, 80, 80, 25]
   \<and> generateDayPattern ''LAUNDROMAT'' 6 = generateDayPattern ''Laundromat'' 6"
proof -
  have lower: "toLowerCase ''LAUNDROMAT'' = toLowerCase ''Laundromat''"
    by code_simp
  have curve: "map (spec_curve Generic 6) [0..<24] =
     [15, 15, 15, 15, 15, 15, 15, 15, 45, 45, 45, 45, 70, 70, 70, 70, 70, 70,
      80, 80, 80, 80, 80, 25]"
    by (simp add: spec_curve_def calculateGenericPopularity_def upt_conv_Cons)
  note th = generateDayPattern_classifies [of "''Laundromat''" 6 "''LAUNDROMAT''"]
  from th have p: "generateDayPattern ''Laundromat'' 6 =
      map (spec_curve (spec_classify ''Laundromat'') 6) [0..<24]"
    by blast
  from th have g: "spec_classify ''Laundromat'' = Generic"
    by blast
  from th have "toLowerCase ''Laundromat'' = toLowerCase ''LAUNDROMAT'' \<longrightarrow>
      generateDayPattern ''Laundromat'' 6 = generateDayPattern ''LAUNDROMAT'' 6"
    by blast
  from this lower [symmetric]
  have "generateDayPattern ''Laundromat'' 6 = generateDayPattern ''LAUNDROMAT'' 6"
    by (rule mp)
  then have e: "generateDayPattern ''LAUNDROMAT'' 6 = generateDayPattern ''Laundromat'' 6"
    by (rule sym)
  show ?thesis
    unfolding e p g curve by simp
qed

section \<open>Properties of the static server\<close>

lemma length_hours: "length hours = 18"
  by (simp add: hours_def)

lemma generateBusyTimes_points: "p \<in> set (generateBusyTimes rnd) \<Longrightarrow> \<not> isPredicted p"
  by (auto simp: generateBusyTimes_def Let_def)

lemma no_jitter_first: "Math_round (fadd 10 (fsub (fmul (1 / 2) 10) 5)) = 10"
  by code_simp

text \<open>
  Claim C8, as the code has it. The simulated curve has 18 points, and every one of
  them, whatever the random draws, has \<open>isPredicted\<close> false; so has every point of the
  live data computed for a venue.
\<close>

theorem generateBusyTimes_isPredicted:
  "length (generateBusyTimes rnd) = 18
   \<and> (\<forall>p\<in>set (generateBusyTimes rnd). \<not> isPredicted p)
   \<and> (\<forall>p\<in>set (busyTimes (computeLiveDataForVenue rnd venue)). \<not> isPredicted p)"
proof -
  have "length (generateBusyTimes rnd) = 18"
    by (simp add: generateBusyTimes_def length_hours)
  moreover have "busyTimes (computeLiveDataForVenue rnd venue) = generateBusyTimes rnd"
    by (simp add: computeLiveDataForVenue_def Let_def)
  ultimately show ?thesis
    using generateBusyTimes_points by auto
qed

theorem generateBusyTimes_isPredicted_witness:
  "\<not> isPredicted (generateBusyTimes noJitter ! 17)"
  using generateBusyTimes_isPredicted [of noJitter] by (simp add: nth_mem)

text \<open>
  No point is marked as predicted: with no jitter the first point of the curve is 10AM
  at 10 percent, with \<open>isPredicted\<close> false.
\<close>

theorem isPredicted_true_counterexample:
  "generateBusyTimes noJitter ! 0 = \<lparr>hour_b = ''10AM'', percentage = 10, isPredicted = False\<rparr>"
  by (simp add: generateBusyTimes_def hours_def noJitter_def upt_conv_Cons no_jitter_first)

lemma batchMap_ids:
  "map venueId_b (map the (filter (\<lambda>r. r \<noteq> None) (fst (batchMap env venues ids st))))
     = filter (\<lambda>i. \<exists>v\<in>set venues. id_j v = i) ids"
proof (induction ids arbitrary: st)
  case Nil
  show ?case by simp
next
  case (Cons i ids)
  show ?case
  proof (cases "find (\<lambda>v. id_j v = i) venues")
    case None
    then have "\<not> (\<exists>v\<in>set venues. id_j v = i)"
      by (simp add: find_None_iff)
    then show ?thesis
      using None Cons.IH [of st] by (simp add: split_beta)
  next
    case (Some venue)
    then have "find (\<lambda>v. id_j v = i) venues \<noteq> None" by simp
    then have "\<exists>v\<in>set venues. id_j v = i"
      by (auto simp: find_None_iff)
    then show ?thesis
      using Some Cons.IH [of "snd (cachedLiveData env venue (''live:'' @ i) st)"]
      by (simp add: split_beta)
  qed
qed

text \<open>
  Claim C9. When the venue file is readable and the body carries an array of ids, the
  batch route answers with a result list, never an error: it holds one entry for each
  id of the request that is the id of a venue, in the order of the request, and nothing
  for the other ids. The single route answers 404 with Venue not found for an id that is
  not the id of a venue, and leaves the cache as it was.
\<close>

theorem liveBatch_omits_unknown:
  "(\<exists>res st'. liveBatch env (Some venueIds) (Some venues) st = (Inr res, st')
       \<and> map venueId_b res = filter (\<lambda>i. \<exists>v\<in>set venues. id_j v = i) venueIds)
   \<and> ((\<forall>v\<in>set venues. id_j v \<noteq> i) \<longrightarrow>
         getLive env (Some venues) i st = (Inl (HttpError 404 ''Venue not found''), st))"
proof -
  have "find (\<lambda>v. id_j v = i) venues = None" if "\<forall>v\<in>set venues. id_j v \<noteq> i"
    using that by (simp add: find_None_iff)
  then have single: "(\<forall>v\<in>set venues. id_j v \<noteq> i) \<longrightarrow>
         getLive env (Some venues) i st = (Inl (HttpError 404 ''Venue not found''), st)"
    by (simp add: getLive_def)
  have "liveBatch env (Some venueIds) (Some venues) st =
      (Inr (map the (filter (\<lambda>r. r \<noteq> None) (fst (batchMap env venues venueIds st)))),
       snd (batchMap env venues venueIds st))"
    by (simp add: liveBatch_def split_beta)
  then show ?thesis
    using batchMap_ids [of env venues venueIds st] single by blast
qed

theorem liveBatch_omits_unknown_witness:
  "(\<exists>res st'. liveBatch \<lparr>now_e = 0, stdTTL = 300, random_e = noJitter\<rparr>
        (Some [''1'', ''nope'', ''2'']) (Some [\<lparr>id_j = ''1'', capacity = Some 230\<rparr>,
                                  \<lparr>id_j = ''2'', capacity = None\<rparr>])
        \<lparr>liveCache = Map.empty, draws = 0\<rparr> = (Inr res, st')
      \<and> map venueId_b res = [''1'', ''2''])
   \<and> getLive \<lparr>now_e = 0, stdTTL = 300, random_e = noJitter\<rparr>
        (Some [\<lparr>id_j = ''1'', capacity = Some 230\<rparr>, \<lparr>id_j = ''2'', capacity = None\<rparr>])
        ''nope'' \<lparr>liveCache = Map.empty, draws = 0\<rparr>
      = (Inl (HttpError 404 ''Venue not found''), \<lparr>liveCache = Map.empty, draws = 0\<rparr>)"
  using liveBatch_omits_unknown
    [of "\<lparr>now_e = 0, stdTTL = 300, random_e = noJitter\<rparr>" "[''1'', ''nope'', ''2'']"
        "[\<lparr>id_j = ''1'', capacity = Some 230\<rparr>, \<lparr>id_j = ''2'', capacity = None\<rparr>]"
        "\<lparr>liveCache = Map.empty, draws = 0\<rparr>" "''nope''"]
  by simp

end
